theory Spec2Isabelle
  imports Complex_Main
begin

section \<open>Data model\<close>

text \<open>
  The backend keeps four tables (users, sponsorships, payments, child reports) behind an
  ORM session. A table is modelled as the list of its rows in primary-key (insertion)
  order, the order in which an unordered query returns them; the session is the record
  \<open>db\<close> of the four tables, passed to every handler and returned updated when the
  handler commits. A handler that raises returns the exception as the left summand and no
  new session: nothing was committed.

  Several tables have columns called \<open>id\<close>, \<open>sponsor_id\<close>, \<open>child_id\<close> and
  \<open>status\<close>; the record fields carry the initial of their table (\<open>u_\<close>, \<open>s_\<close>,
  \<open>p_\<close>, \<open>r_\<close>) to tell them apart, and schema fields the initials of their schema.
\<close>

datatype UserRole = ADMIN | SPONSOR | CHILD

datatype Gender = MALE | FEMALE | OTHER

datatype date = Date (year: int) (month: int) (day: int)

datatype tz = UTC | Offset int

record datetime =
  dt_date :: date
  dt_seconds :: nat
  tzinfo :: "tz option"

text \<open>\<^verbatim>\<open>value.replace(tzinfo=timezone.utc)\<close>: the clock fields stay, the zone is set.\<close>

definition replace_tzinfo :: "datetime \<Rightarrow> tz \<Rightarrow> datetime" where
  "replace_tzinfo value z = value\<lparr>tzinfo := Some z\<rparr>"

record User =
  u_id :: int
  first_name :: string
  last_name :: string
  role :: UserRole
  username :: string
  hashed_password :: string
  email :: "string option"
  phone_number :: "string option"
  date_of_birth :: "date option"
  gender :: "Gender option"
  background_info :: "string option"
  profile_image :: "string option"
  image_gallery :: "string list option"
  is_active :: bool

record Sponsorship =
  s_id :: int
  s_sponsor_id :: int
  s_child_id :: int
  start_date :: date
  s_status :: string

text \<open>
  \<open>amount\<close> is a float column. No handler modelled here computes with it, it is only
  stored and copied, so it is carried as a real number. \<open>payment_date\<close> has a column
  default (the current time), and no handler stores a null there, so it is a plain value.
\<close>

record Payment =
  p_id :: int
  p_sponsor_id :: int
  p_child_id :: int
  amount :: real
  currency :: string
  transaction_id :: string
  payment_method :: string
  p_status :: string
  payment_date :: datetime

record ChildReport =
  r_id :: int
  r_child_id :: int
  report_date :: date
  report_type :: string
  details :: string
  r_status :: string

record db =
  users :: "User list"
  sponsorships :: "Sponsorship list"
  payments :: "Payment list"
  child_reports :: "ChildReport list"

text \<open>
  What a handler can raise: an \<open>HTTPException\<close> with its status code and detail, the
  store's \<open>IntegrityError\<close> when a commit breaks a unique constraint, and Python's
  \<open>ZeroDivisionError\<close>. The last two are not caught by any handler.
\<close>

datatype error = HTTPException (status_code: nat) (detail: string)
  | IntegrityError
  | ZeroDivisionError

text \<open>The decoded token: \<open>get_current_user\<close> returns id, username and role.\<close>

record logged_in_user =
  lu_id :: int
  lu_username :: string
  lu_role :: string

section \<open>Helpers (utils/helpers.py)\<close>

definition is_admin :: "User \<Rightarrow> bool" where
  "is_admin user = (role user = ADMIN)"

definition is_sponsor_of_child :: "db \<Rightarrow> int \<Rightarrow> int \<Rightarrow> bool" where
  "is_sponsor_of_child d sponsor_id child_id =
     list_ex (\<lambda>s. s_sponsor_id s = sponsor_id \<and> s_child_id s = child_id) (sponsorships d)"

definition get_user_or_404 :: "db \<Rightarrow> int \<Rightarrow> string \<Rightarrow> error + User" where
  "get_user_or_404 d user_id dtl =
     (case find (\<lambda>u. u_id u = user_id) (users d) of
        None \<Rightarrow> Inl (HTTPException 404 dtl)
      | Some user \<Rightarrow> Inr user)"

text \<open>
  Python's \<open>str\<close> of an integer, for the detail texts that print an id
  (\<^verbatim>\<open>f"Payment with ID {payment_id} not found"\<close>).
\<close>

fun digits :: "nat \<Rightarrow> string" where
  "digits n =
     (if n < 10 then [''0123456789'' ! n]
      else digits (n div 10) @ [''0123456789'' ! (n mod 10)])"

definition str :: "int \<Rightarrow> string" where
  "str i = (if i < 0 then CHR ''-'' # digits (nat (- i)) else digits (nat i))"

definition get_sponsorship_or_404 :: "db \<Rightarrow> int \<Rightarrow> error + Sponsorship" where
  "get_sponsorship_or_404 d sponsorship_id =
     (case find (\<lambda>s. s_id s = sponsorship_id) (sponsorships d) of
        None \<Rightarrow>
          Inl (HTTPException 404 (''Sponsorship with ID '' @ str sponsorship_id @ '' not found''))
      | Some sponsorship \<Rightarrow> Inr sponsorship)"

definition get_payment_or_404 :: "db \<Rightarrow> int \<Rightarrow> error + Payment" where
  "get_payment_or_404 d payment_id =
     (case find (\<lambda>p. p_id p = payment_id) (payments d) of
        None \<Rightarrow>
          Inl (HTTPException 404 (''Payment with ID '' @ str payment_id @ '' not found''))
      | Some payment \<Rightarrow> Inr payment)"

text \<open>
  \<open>paginate_query\<close> counts the query, divides, then fetches
  \<^verbatim>\<open>query.offset((page - 1) * page_size).limit(page_size).all()\<close>.
  Python's \<open>//\<close> is floor division, which is \<open>div\<close> on \<open>int\<close>, and raises on a
  zero divisor. \<open>offset\<close> and \<open>limit\<close> skip and keep a prefix of the rows; for a
  negative argument they follow SQLite, the store of the repository's tests (a negative
  OFFSET skips nothing, a negative LIMIT keeps everything). Every endpoint validates
  \<open>page \<ge> 1\<close> and \<open>1 \<le> page_size \<le> 100\<close> before it paginates.
\<close>

definition offset :: "int \<Rightarrow> 'a list \<Rightarrow> 'a list" where
  "offset n query = (if n < 0 then query else drop (nat n) query)"

definition limit :: "int \<Rightarrow> 'a list \<Rightarrow> 'a list" where
  "limit n query = (if n < 0 then query else take (nat n) query)"

record 'a pagination =
  results :: "'a list"
  total_count :: int
  total_pages :: int

definition paginate_query :: "'a list \<Rightarrow> int \<Rightarrow> int \<Rightarrow> error + 'a pagination" where
  "paginate_query query page page_size =
     (let total_count = int (length query) in
      if page_size = 0 then Inl ZeroDivisionError
      else
        let total_pages = (total_count + page_size - 1) div page_size;
            results = limit page_size (offset ((page - 1) * page_size) query)
        in Inr \<lparr>results = results, total_count = total_count, total_pages = total_pages\<rparr>)"

section \<open>The store's side of a commit\<close>

text \<open>
  The primary key of a new row is given by the store; the model takes the successor of
  the largest key in the table (1 for an empty table).
\<close>

definition next_id :: "int list \<Rightarrow> int" where
  "next_id ids = foldr max ids 0 + 1"

text \<open>
  \<open>payments.transaction_id\<close> is declared \<^verbatim>\<open>unique=True\<close>: the store refuses a
  commit that would give a row the transaction id of another row.
\<close>

definition add_payment :: "db \<Rightarrow> Payment \<Rightarrow> error + db" where
  "add_payment d new_payment =
     (if list_ex (\<lambda>p. transaction_id p = transaction_id new_payment) (payments d)
      then Inl IntegrityError
      else Inr (d\<lparr>payments := payments d @ [new_payment]\<rparr>))"

definition commit_payment :: "db \<Rightarrow> Payment \<Rightarrow> Payment \<Rightarrow> error + db" where
  "commit_payment d old payment =
     (if transaction_id payment \<noteq> transaction_id old \<and>
         list_ex (\<lambda>p. p_id p \<noteq> p_id old \<and> transaction_id p = transaction_id payment)
           (payments d)
      then Inl IntegrityError
      else Inr (d\<lparr>payments := map (\<lambda>p. if p_id p = p_id old then payment else p) (payments d)\<rparr>))"

section \<open>Payments (api/payments.py)\<close>

record PaymentCreate =
  pc_sponsor_id :: int
  pc_child_id :: int
  pc_amount :: real
  pc_currency :: string
  pc_transaction_id :: string
  pc_payment_method :: string
  pc_status :: string
  pc_payment_date :: "datetime option"

record PaymentUpdate =
  pu_amount :: "real option"
  pu_currency :: "string option"
  pu_transaction_id :: "string option"
  pu_payment_method :: "string option"
  pu_status :: "string option"
  pu_payment_date :: "datetime option"

text \<open>
  \<open>create_payment\<close>. \<open>now\<close> is the clock read by the column default of
  \<open>payment_date\<close> when the request carries none. The result is the committed session
  and the new row.
\<close>

definition create_payment ::
  "datetime \<Rightarrow> db \<Rightarrow> logged_in_user \<Rightarrow> PaymentCreate \<Rightarrow> error + (db \<times> Payment)" where
  "create_payment now d lu payment_data =
     (case get_user_or_404 d (lu_id lu) ''User not found'' of
        Inl e \<Rightarrow> Inl e
      | Inr user \<Rightarrow>
          if \<not> is_admin user \<and> u_id user \<noteq> pc_sponsor_id payment_data
          then Inl (HTTPException 403 ''You do not have permission to create this payment.'')
          else if find (\<lambda>u. u_id u = pc_sponsor_id payment_data \<and> role u = SPONSOR) (users d)
                  = None
          then Inl (HTTPException 404 ''Sponsor not found'')
          else if find (\<lambda>u. u_id u = pc_child_id payment_data \<and> role u = CHILD) (users d)
                  = None
          then Inl (HTTPException 404 ''Child not found'')
          else if find (\<lambda>s. s_sponsor_id s = pc_sponsor_id payment_data \<and>
                              s_child_id s = pc_child_id payment_data \<and>
                              s_status s = ''active'') (sponsorships d) = None
          then Inl (HTTPException 400
            ''No active sponsorship found between the sponsor and child. Create sponsorship first.'')
          else if find (\<lambda>p. transaction_id p = pc_transaction_id payment_data) (payments d)
                  \<noteq> None
          then Inl (HTTPException 400 ''Transaction ID already exists'')
          else
            let new_payment =
              \<lparr>p_id = next_id (map p_id (payments d)),
               p_sponsor_id = pc_sponsor_id payment_data,
               p_child_id = pc_child_id payment_data,
               amount = pc_amount payment_data,
               currency = pc_currency payment_data,
               transaction_id = pc_transaction_id payment_data,
               payment_method = pc_payment_method payment_data,
               p_status = pc_status payment_data,
               payment_date =
                 (case pc_payment_date payment_data of None \<Rightarrow> now | Some t \<Rightarrow> t)\<rparr>
            in (case add_payment d new_payment of
                  Inl e \<Rightarrow> Inl e
                | Inr d' \<Rightarrow> Inr (d', new_payment)))"

text \<open>
  \<open>get_payments\<close>. The two filter blocks of the handler are two definitions, in the
  order of the source. \<^verbatim>\<open>if sponsor_id:\<close> and \<^verbatim>\<open>if child_id:\<close> test an
  optional integer for truth: false for \<open>None\<close> and for 0.
  \<open>child.sponsorships_as_child\<close> is the relationship over \<open>Sponsorship.child_id\<close>.
\<close>

definition sponsorships_as_child :: "db \<Rightarrow> User \<Rightarrow> Sponsorship list" where
  "sponsorships_as_child d child = filter (\<lambda>s. s_child_id s = u_id child) (sponsorships d)"

definition filter_by_sponsor ::
  "db \<Rightarrow> User \<Rightarrow> int option \<Rightarrow> Payment list \<Rightarrow> error + Payment list" where
  "filter_by_sponsor d user sponsor_id query =
     (case sponsor_id of
        None \<Rightarrow> Inr query
      | Some sid \<Rightarrow>
          if sid = 0 then Inr query
          else if find (\<lambda>u. u_id u = sid \<and> role u = SPONSOR) (users d) = None
          then Inl (HTTPException 404 ''Sponsor not found'')
          else if \<not> is_admin user \<and> u_id user \<noteq> sid
          then Inl (HTTPException 403 ''You do not have permission to access this resource.'')
          else Inr (filter (\<lambda>p. p_sponsor_id p = sid) query))"

definition filter_by_child ::
  "db \<Rightarrow> User \<Rightarrow> int option \<Rightarrow> int option \<Rightarrow> Payment list \<Rightarrow> error + Payment list" where
  "filter_by_child d user sponsor_id child_id query =
     (case child_id of
        None \<Rightarrow> Inr query
      | Some cid \<Rightarrow>
          if cid = 0 then Inr query
          else
            (case find (\<lambda>u. u_id u = cid \<and> role u = CHILD) (users d) of
               None \<Rightarrow> Inl (HTTPException 404 ''Child not found'')
             | Some child \<Rightarrow>
                 let sponsor_ids = map s_sponsor_id (sponsorships_as_child d child) in
                 if \<not> is_admin user \<and> u_id user \<notin> set sponsor_ids
                 then Inl (HTTPException 403
                             ''You do not have permission to access this resource.'')
                 else
                   (case sponsor_id of
                      None \<Rightarrow> Inr (filter (\<lambda>p. p_child_id p = cid) query)
                    | Some sid \<Rightarrow>
                        if sid = 0 then Inr (filter (\<lambda>p. p_child_id p = cid) query)
                        else if find (\<lambda>s. s_sponsor_id s = sid \<and> s_child_id s = cid)
                                  (sponsorships d) = None
                        then Inl (HTTPException 400
                          ''No sponsorship relationship exists between the sponsor and child.'')
                        else Inr (filter (\<lambda>p. p_sponsor_id p = sid \<and> p_child_id p = cid)
                                    query))))"

record payments_response =
  resp_page :: int
  resp_page_size :: int
  resp_total_payments :: int
  resp_total_pages :: int
  resp_payments :: "Payment list"

definition get_payments ::
  "db \<Rightarrow> logged_in_user \<Rightarrow> int option \<Rightarrow> int option \<Rightarrow> int \<Rightarrow> int \<Rightarrow> error + payments_response"
  where
  "get_payments d lu sponsor_id child_id page page_size =
     (case get_user_or_404 d (lu_id lu) ''User not found'' of
        Inl e \<Rightarrow> Inl e
      | Inr user \<Rightarrow>
          if sponsor_id = None \<and> child_id = None
          then Inl (HTTPException 400 ''Either 'sponsor_id' or 'child_id' must be provided.'')
          else
            (case filter_by_sponsor d user sponsor_id (payments d) of
               Inl e \<Rightarrow> Inl e
             | Inr query \<Rightarrow>
                 (case filter_by_child d user sponsor_id child_id query of
                    Inl e \<Rightarrow> Inl e
                  | Inr query' \<Rightarrow>
                      (case paginate_query query' page page_size of
                         Inl e \<Rightarrow> Inl e
                       | Inr pagination \<Rightarrow>
                           if results pagination = []
                           then Inl (HTTPException 404 ''No payments found'')
                           else Inr \<lparr>resp_page = page, resp_page_size = page_size,
                                     resp_total_payments = total_count pagination,
                                     resp_total_pages = total_pages pagination,
                                     resp_payments = results pagination\<rparr>))))"

text \<open>
  \<open>update_payment\<close>. \<^verbatim>\<open>if payment_data.transaction_id:\<close> tests an optional string
  for truth: false for \<open>None\<close> and for the empty string. The loop over the constant list
  \<open>update_fields\<close> is unrolled in the list's order; it copies every field of the
  request that is not \<open>None\<close>.
\<close>

definition transaction_id_in_use :: "db \<Rightarrow> PaymentUpdate \<Rightarrow> int \<Rightarrow> bool" where
  "transaction_id_in_use d payment_data payment_id =
     (case pu_transaction_id payment_data of
        None \<Rightarrow> False
      | Some t \<Rightarrow>
          if t = [] then False
          else find (\<lambda>p. transaction_id p = t \<and> p_id p \<noteq> payment_id) (payments d) \<noteq> None)"

definition set_payment_fields :: "PaymentUpdate \<Rightarrow> Payment \<Rightarrow> Payment" where
  "set_payment_fields payment_data payment =
     (let p1 = (case pu_amount payment_data of
                  None \<Rightarrow> payment | Some v \<Rightarrow> payment\<lparr>amount := v\<rparr>);
          p2 = (case pu_currency payment_data of
                  None \<Rightarrow> p1 | Some v \<Rightarrow> p1\<lparr>currency := v\<rparr>);
          p3 = (case pu_transaction_id payment_data of
                  None \<Rightarrow> p2 | Some v \<Rightarrow> p2\<lparr>transaction_id := v\<rparr>);
          p4 = (case pu_payment_method payment_data of
                  None \<Rightarrow> p3 | Some v \<Rightarrow> p3\<lparr>payment_method := v\<rparr>);
          p5 = (case pu_status payment_data of
                  None \<Rightarrow> p4 | Some v \<Rightarrow> p4\<lparr>p_status := v\<rparr>)
      in (case pu_payment_date payment_data of
            None \<Rightarrow> p5 | Some v \<Rightarrow> p5\<lparr>payment_date := replace_tzinfo v UTC\<rparr>))"

definition update_payment ::
  "db \<Rightarrow> logged_in_user \<Rightarrow> PaymentUpdate \<Rightarrow> int \<Rightarrow> error + (db \<times> Payment)" where
  "update_payment d lu payment_data payment_id =
     (case get_user_or_404 d (lu_id lu) ''User not found'' of
        Inl e \<Rightarrow> Inl e
      | Inr user \<Rightarrow>
          if \<not> is_admin user
          then Inl (HTTPException 403 ''You do not have permission to update payment details.'')
          else
            (case get_payment_or_404 d payment_id of
               Inl e \<Rightarrow> Inl e
             | Inr payment \<Rightarrow>
                 if transaction_id_in_use d payment_data payment_id
                 then Inl (HTTPException 400 ''Transaction ID already exists'')
                 else
                   let payment' = set_payment_fields payment_data payment in
                   (case commit_payment d payment payment' of
                      Inl e \<Rightarrow> Inl e
                    | Inr d' \<Rightarrow> Inr (d', payment'))))"

section \<open>Sponsorships (api/sponsorships.py)\<close>

record SponsorshipBase =
  sb_sponsor_id :: int
  sb_child_id :: int
  sb_start_date :: date
  sb_status :: string

record SponsorshipUpdate =
  su_start_date :: "date option"
  su_status :: "string option"

text \<open>
  \<open>create_sponsorship\<close>. The child is looked up with \<open>get_user_or_404\<close> (by id
  alone, its result dropped), the sponsor with a query on id and role. The sponsorships
  table has no unique column besides its key, so its commit cannot fail.
\<close>

definition create_sponsorship ::
  "db \<Rightarrow> logged_in_user \<Rightarrow> SponsorshipBase \<Rightarrow> error + (db \<times> Sponsorship)" where
  "create_sponsorship d lu sponsorship_data =
     (case get_user_or_404 d (lu_id lu) ''User not found'' of
        Inl e \<Rightarrow> Inl e
      | Inr user \<Rightarrow>
          if \<not> is_admin user
          then Inl (HTTPException 403 ''You do not have permission to perform this action'')
          else
            (case get_user_or_404 d (sb_child_id sponsorship_data) ''Child not found'' of
               Inl e \<Rightarrow> Inl e
             | Inr child \<Rightarrow>
                 if find (\<lambda>u. u_id u = sb_sponsor_id sponsorship_data \<and> role u = SPONSOR)
                      (users d) = None
                 then Inl (HTTPException 404 ''Sponsor not found'')
                 else if find (\<lambda>s. s_child_id s = sb_child_id sponsorship_data \<and>
                                     s_sponsor_id s = sb_sponsor_id sponsorship_data)
                           (sponsorships d) \<noteq> None
                 then Inl (HTTPException 400 ''Child already sponsored by this sponsor'')
                 else
                   let sponsorship =
                     \<lparr>s_id = next_id (map s_id (sponsorships d)),
                      s_sponsor_id = sb_sponsor_id sponsorship_data,
                      s_child_id = sb_child_id sponsorship_data,
                      start_date = sb_start_date sponsorship_data,
                      s_status = sb_status sponsorship_data\<rparr>
                   in Inr (d\<lparr>sponsorships := sponsorships d @ [sponsorship]\<rparr>, sponsorship)))"

text \<open>
  \<open>update_sponsorship\<close> tests both request fields for truth: a date is always true,
  a string is true when it is not empty.
\<close>

definition set_sponsorship_fields :: "SponsorshipUpdate \<Rightarrow> Sponsorship \<Rightarrow> Sponsorship" where
  "set_sponsorship_fields sponsorship_data sponsorship =
     (let s1 = (case su_start_date sponsorship_data of
                  None \<Rightarrow> sponsorship | Some v \<Rightarrow> sponsorship\<lparr>start_date := v\<rparr>)
      in (case su_status sponsorship_data of
            None \<Rightarrow> s1
          | Some v \<Rightarrow> if v = [] then s1 else s1\<lparr>s_status := v\<rparr>))"

definition update_sponsorship ::
  "db \<Rightarrow> logged_in_user \<Rightarrow> SponsorshipUpdate \<Rightarrow> int \<Rightarrow> error + (db \<times> Sponsorship)" where
  "update_sponsorship d lu sponsorship_data sponsorship_id =
     (case get_user_or_404 d (lu_id lu) ''User not found'' of
        Inl e \<Rightarrow> Inl e
      | Inr user \<Rightarrow>
          if \<not> is_admin user
          then Inl (HTTPException 403 ''You do not have permission to update sponsorships'')
          else
            (case get_sponsorship_or_404 d sponsorship_id of
               Inl e \<Rightarrow> Inl e
             | Inr sponsorship \<Rightarrow>
                 let sponsorship' = set_sponsorship_fields sponsorship_data sponsorship in
                 Inr (d\<lparr>sponsorships :=
                          map (\<lambda>s. if s_id s = s_id sponsorship then sponsorship' else s)
                            (sponsorships d)\<rparr>,
                      sponsorship')))"

section \<open>Child reports (api/child\_reports.py)\<close>

record ChildReportUpdate =
  cru_report_date :: "date option"
  cru_report_type :: "string option"
  cru_details :: "string option"
  cru_status :: "string option"

text \<open>
  \<open>update_child_report\<close>. The request body defaults to \<open>None\<close>, and
  \<^verbatim>\<open>getattr(report_data, field, None)\<close> then gives \<open>None\<close> for every field. The loop
  over \<open>update_fields\<close> is unrolled in the list's order. The status column is an
  enumeration of \<open>unread\<close> and \<open>read\<close>; the handlers store the request's string as it is.
\<close>

definition getattr_report :: "ChildReportUpdate option \<Rightarrow> (ChildReportUpdate \<Rightarrow> 'a option) \<Rightarrow> 'a option"
  where
  "getattr_report report_data field =
     (case report_data of None \<Rightarrow> None | Some data \<Rightarrow> field data)"

definition set_report_fields :: "ChildReportUpdate option \<Rightarrow> ChildReport \<Rightarrow> ChildReport" where
  "set_report_fields report_data report =
     (let r1 = (case getattr_report report_data cru_report_date of
                  None \<Rightarrow> report | Some v \<Rightarrow> report\<lparr>report_date := v\<rparr>);
          r2 = (case getattr_report report_data cru_report_type of
                  None \<Rightarrow> r1 | Some v \<Rightarrow> r1\<lparr>report_type := v\<rparr>);
          r3 = (case getattr_report report_data cru_details of
                  None \<Rightarrow> r2 | Some v \<Rightarrow> r2\<lparr>details := v\<rparr>)
      in (case getattr_report report_data cru_status of
            None \<Rightarrow> r3 | Some v \<Rightarrow> r3\<lparr>r_status := v\<rparr>))"

definition commit_report :: "db \<Rightarrow> ChildReport \<Rightarrow> ChildReport \<Rightarrow> db" where
  "commit_report d old report =
     d\<lparr>child_reports := map (\<lambda>r. if r_id r = r_id old then report else r) (child_reports d)\<rparr>"

definition update_child_report ::
  "db \<Rightarrow> logged_in_user \<Rightarrow> ChildReportUpdate option \<Rightarrow> int \<Rightarrow> error + (db \<times> ChildReport)"
  where
  "update_child_report d lu report_data report_id =
     (case get_user_or_404 d (lu_id lu) ''User not found'' of
        Inl e \<Rightarrow> Inl e
      | Inr user \<Rightarrow>
          if \<not> is_admin user
          then Inl (HTTPException 403 ''You do not have permission to update reports.'')
          else
            (case find (\<lambda>r. r_id r = report_id) (child_reports d) of
               None \<Rightarrow> Inl (HTTPException 404 ''Report not found.'')
             | Some report \<Rightarrow>
                 let report' = set_report_fields report_data report in
                 Inr (commit_report d report report', report')))"

definition mark_report_as_read ::
  "int \<Rightarrow> db \<Rightarrow> logged_in_user \<Rightarrow> error + (db \<times> ChildReport)" where
  "mark_report_as_read report_id d lu =
     (case get_user_or_404 d (lu_id lu) ''User not found'' of
        Inl e \<Rightarrow> Inl e
      | Inr user \<Rightarrow>
          (case find (\<lambda>r. r_id r = report_id) (child_reports d) of
             None \<Rightarrow> Inl (HTTPException 404 ''Report not found.'')
           | Some report \<Rightarrow>
               (case find (\<lambda>u. u_id u = r_child_id report \<and> role u = CHILD) (users d) of
                  None \<Rightarrow> Inl (HTTPException 404 ''Associated child not found.'')
                | Some child \<Rightarrow>
                    if \<not> is_admin user \<and>
                       u_id user \<notin> set (map s_sponsor_id (sponsorships_as_child d child))
                    then Inl (HTTPException 403
                                ''You do not have permission to mark this report as read.'')
                    else
                      let report' = report\<lparr>r_status := ''read''\<rparr> in
                      Inr (commit_report d report report', report'))))"

section \<open>Sponsor views (api/sponsors.py)\<close>

text \<open>
  \<open>get_child_details\<close>, its statements up to the access check: the principal, the
  child, the first sponsorship row of the child, and the check. What follows in the
  handler assembles the response from the child and this sponsorship and raises no
  \<open>HTTPException\<close>; the model returns the two.
\<close>

definition get_child_details ::
  "db \<Rightarrow> logged_in_user \<Rightarrow> int \<Rightarrow> error + (User \<times> Sponsorship option)" where
  "get_child_details d lu ident =
     (case get_user_or_404 d (lu_id lu) ''User not found'' of
        Inl e \<Rightarrow> Inl e
      | Inr user \<Rightarrow>
          (case find (\<lambda>u. u_id u = ident \<and> role u = CHILD) (users d) of
             None \<Rightarrow> Inl (HTTPException 404 ''Child not found'')
           | Some child \<Rightarrow>
               let sponsorship = find (\<lambda>s. s_child_id s = ident) (sponsorships d) in
               if \<not> is_admin user \<and>
                  (case sponsorship of
                     None \<Rightarrow> True
                   | Some s \<Rightarrow> s_sponsor_id s \<noteq> u_id user)
               then Inl (HTTPException 403 ''Access denied'')
               else Inr (child, sponsorship)))"

section \<open>Users (api/users.py)\<close>

record UserCreate =
  uc_first_name :: string
  uc_last_name :: string
  uc_role :: UserRole
  uc_is_active :: "bool option"
  uc_username :: string
  uc_password :: string
  uc_email :: "string option"
  uc_phone_number :: "string option"
  uc_date_of_birth :: "date option"
  uc_gender :: "Gender option"
  uc_background_info :: "string option"

text \<open>
  \<open>update_user\<close>. The handler fetches the principal, tests \<^verbatim>\<open>if not user:\<close> (a
  fetched row is never false, so the branch is dead), fetches the target and copies every
  field of the request that is not \<open>None\<close>, the password through \<open>hash_password\<close>
  (bcrypt, a parameter here). \<open>username\<close> and \<open>email\<close> are unique columns; a null
  email collides with nothing.
\<close>

definition set_user_fields :: "(string \<Rightarrow> string) \<Rightarrow> UserCreate \<Rightarrow> User \<Rightarrow> User" where
  "set_user_fields hash_password user_data user_update =
     (let u1 = user_update\<lparr>first_name := uc_first_name user_data,
                            last_name := uc_last_name user_data,
                            role := uc_role user_data\<rparr>;
          u2 = (case uc_is_active user_data of None \<Rightarrow> u1 | Some v \<Rightarrow> u1\<lparr>is_active := v\<rparr>);
          u3 = u2\<lparr>username := uc_username user_data,
                   hashed_password := hash_password (uc_password user_data)\<rparr>;
          u4 = (case uc_email user_data of None \<Rightarrow> u3 | Some v \<Rightarrow> u3\<lparr>email := Some v\<rparr>);
          u5 = (case uc_phone_number user_data of
                  None \<Rightarrow> u4 | Some v \<Rightarrow> u4\<lparr>phone_number := Some v\<rparr>);
          u6 = (case uc_date_of_birth user_data of
                  None \<Rightarrow> u5 | Some v \<Rightarrow> u5\<lparr>date_of_birth := Some v\<rparr>);
          u7 = (case uc_gender user_data of None \<Rightarrow> u6 | Some v \<Rightarrow> u6\<lparr>gender := Some v\<rparr>)
      in (case uc_background_info user_data of
            None \<Rightarrow> u7 | Some v \<Rightarrow> u7\<lparr>background_info := Some v\<rparr>))"

definition commit_user :: "db \<Rightarrow> User \<Rightarrow> User \<Rightarrow> error + db" where
  "commit_user d old user =
     (if (username user \<noteq> username old \<and>
          list_ex (\<lambda>u. u_id u \<noteq> u_id old \<and> username u = username user) (users d)) \<or>
         (email user \<noteq> email old \<and> email user \<noteq> None \<and>
          list_ex (\<lambda>u. u_id u \<noteq> u_id old \<and> email u = email user) (users d))
      then Inl IntegrityError
      else Inr (d\<lparr>users := map (\<lambda>u. if u_id u = u_id old then user else u) (users d)\<rparr>))"

definition update_user ::
  "(string \<Rightarrow> string) \<Rightarrow> db \<Rightarrow> logged_in_user \<Rightarrow> UserCreate \<Rightarrow> int \<Rightarrow> error + db" where
  "update_user hash_password d lu user_data user_id =
     (case get_user_or_404 d (lu_id lu) ''User not found'' of
        Inl e \<Rightarrow> Inl e
      | Inr user \<Rightarrow>
          (case get_user_or_404 d user_id ''User to update not found'' of
             Inl e \<Rightarrow> Inl e
           | Inr user_update \<Rightarrow>
               commit_user d user_update (set_user_fields hash_password user_data user_update)))"

section \<open>A sample session\<close>

text \<open>
  One administrator, two sponsors and a child sponsored by both; two payments for the
  child, one by each sponsor; one unread report. The concrete statements below are
  evaluated on it.
\<close>

definition sample_user :: "int \<Rightarrow> UserRole \<Rightarrow> string \<Rightarrow> User" where
  "sample_user i r name =
     \<lparr>u_id = i, first_name = name, last_name = ''Doe'', role = r, username = name,
      hashed_password = ''hashed'', email = None, phone_number = None,
      date_of_birth = None, gender = None, background_info = None, profile_image = None,
      image_gallery = None, is_active = True\<rparr>"

definition sample_login :: "int \<Rightarrow> string \<Rightarrow> string \<Rightarrow> logged_in_user" where
  "sample_login i name r = \<lparr>lu_id = i, lu_username = name, lu_role = r\<rparr>"

definition jane :: logged_in_user where
  "jane = sample_login 1 ''jane'' ''admin''"

definition alice :: logged_in_user where
  "alice = sample_login 2 ''alice'' ''sponsor''"

definition bob :: logged_in_user where
  "bob = sample_login 3 ''bob'' ''sponsor''"

definition noon :: datetime where
  "noon = \<lparr>dt_date = Date 2024 3 16, dt_seconds = 43200, tzinfo = Some UTC\<rparr>"

definition sponsorship_alice :: Sponsorship where
  "sponsorship_alice =
     \<lparr>s_id = 1, s_sponsor_id = 2, s_child_id = 4, start_date = Date 2024 3 20,
      s_status = ''active''\<rparr>"

definition sponsorship_bob :: Sponsorship where
  "sponsorship_bob =
     \<lparr>s_id = 2, s_sponsor_id = 3, s_child_id = 4, start_date = Date 2024 3 21,
      s_status = ''canceled''\<rparr>"

definition payment_bob :: Payment where
  "payment_bob =
     \<lparr>p_id = 1, p_sponsor_id = 3, p_child_id = 4, amount = 5000, currency = ''KSh'',
      transaction_id = ''TXN1'', payment_method = ''Mpesa'', p_status = ''completed'',
      payment_date = noon\<rparr>"

definition payment_alice :: Payment where
  "payment_alice =
     \<lparr>p_id = 2, p_sponsor_id = 2, p_child_id = 4, amount = 2000, currency = ''KSh'',
      transaction_id = [], payment_method = ''PayPal'', p_status = ''pending'',
      payment_date = noon\<rparr>"

definition report_carol :: ChildReport where
  "report_carol =
     \<lparr>r_id = 1, r_child_id = 4, report_date = Date 2024 3 15, report_type = ''Academic'',
      details = ''Scored an A grade.'', r_status = ''unread''\<rparr>"

definition sample_db :: db where
  "sample_db =
     \<lparr>users = [sample_user 1 ADMIN ''jane'', sample_user 2 SPONSOR ''alice'',
               sample_user 3 SPONSOR ''bob'', sample_user 4 CHILD ''carol''],
      sponsorships = [sponsorship_alice, sponsorship_bob],
      payments = [payment_bob, payment_alice],
      child_reports = [report_carol]\<rparr>"

definition payment_request :: "int \<Rightarrow> string \<Rightarrow> PaymentCreate" where
  "payment_request sponsor txn =
     \<lparr>pc_sponsor_id = sponsor, pc_child_id = 4, pc_amount = 1500, pc_currency = ''KSh'',
      pc_transaction_id = txn, pc_payment_method = ''Mpesa'', pc_status = ''completed'',
      pc_payment_date = None\<rparr>"

definition sponsorship_request :: "int \<Rightarrow> int \<Rightarrow> SponsorshipBase" where
  "sponsorship_request sponsor child =
     \<lparr>sb_sponsor_id = sponsor, sb_child_id = child, sb_start_date = Date 2024 4 1,
      sb_status = ''active''\<rparr>"

definition amount_patch :: PaymentUpdate where
  "amount_patch =
     \<lparr>pu_amount = Some 7000, pu_currency = None, pu_transaction_id = None,
      pu_payment_method = None, pu_status = None, pu_payment_date = None\<rparr>"

definition details_patch :: ChildReportUpdate where
  "details_patch =
     \<lparr>cru_report_date = None, cru_report_type = None,
      cru_details = Some ''Improved in Math.'', cru_status = None\<rparr>"

definition status_patch :: SponsorshipUpdate where
  "status_patch = \<lparr>su_start_date = None, su_status = Some ''completed''\<rparr>"

definition promote_request :: UserCreate where
  "promote_request =
     \<lparr>uc_first_name = ''carol'', uc_last_name = ''Doe'', uc_role = ADMIN,
      uc_is_active = Some True, uc_username = ''carol'', uc_password = ''Test1234!'',
      uc_email = None, uc_phone_number = None, uc_date_of_birth = None, uc_gender = None,
      uc_background_info = None\<rparr>"

definition empty_transaction_id_patch :: PaymentUpdate where
  "empty_transaction_id_patch =
     \<lparr>pu_amount = None, pu_currency = None, pu_transaction_id = Some [],
      pu_payment_method = None, pu_status = None, pu_payment_date = None\<rparr>"

definition second_sponsor_db :: db where
  "second_sponsor_db =
     sample_db\<lparr>sponsorships :=
       [\<lparr>s_id = 1, s_sponsor_id = 3, s_child_id = 4, start_date = Date 2024 3 20,
         s_status = ''active''\<rparr>,
        \<lparr>s_id = 2, s_sponsor_id = 2, s_child_id = 4, start_date = Date 2024 3 21,
         s_status = ''active''\<rparr>]\<rparr>"

lemmas sample_defs =
  sample_db_def sample_user_def sample_login_def jane_def alice_def bob_def noon_def
  sponsorship_alice_def sponsorship_bob_def payment_bob_def payment_alice_def
  report_carol_def

lemma find_None_list_ex: "(find P xs = None) = (\<not> list_ex P xs)"
  by (auto simp add: find_None_iff list_ex_iff)

section \<open>Pagination\<close>

lemma ceil_div_bounds:
  fixes n k :: int
  assumes "1 \<le> k"
  shows "n \<le> ((n + k - 1) div k) * k" and "((n + k - 1) div k) * k \<le> n + k - 1"
proof -
  have eq: "n + k - 1 = ((n + k - 1) div k) * k + (n + k - 1) mod k" by simp
  have "(n + k - 1) mod k \<le> k - 1"
    using assms pos_mod_bound[of k "n + k - 1"] by linarith
  with eq show "n \<le> ((n + k - 1) div k) * k" by linarith
  have "0 \<le> (n + k - 1) mod k"
    using assms pos_mod_sign[of k "n + k - 1"] by linarith
  with eq show "((n + k - 1) div k) * k \<le> n + k - 1" by linarith
qed

lemma ceil_div_eq_ceiling:
  fixes n k :: int
  assumes "1 \<le> k"
  shows "(n + k - 1) div k = \<lceil>real_of_int n / real_of_int k\<rceil>"
proof -
  let ?q = "(n + k - 1) div k"
  have k: "0 < real_of_int k" using assms by simp
  have "real_of_int n \<le> real_of_int (?q * k)"
    using ceil_div_bounds(1)[OF assms, of n] by linarith
  then have up: "real_of_int n / real_of_int k \<le> real_of_int ?q"
    using k by (simp add: pos_divide_le_eq)
  have "real_of_int (?q * k) < real_of_int (n + k)"
    using ceil_div_bounds(2)[OF assms, of n] by linarith
  then have "(real_of_int ?q - 1) * real_of_int k < real_of_int n"
    by (simp add: algebra_simps)
  then have lo: "real_of_int ?q - 1 < real_of_int n / real_of_int k"
    using k by (simp add: pos_less_divide_eq)
  from lo up show ?thesis by (simp add: ceiling_unique)
qed

text \<open>
  C1. For a page size between 1 and 100, \<open>paginate_query\<close> returns (it does not raise),
  \<open>total_count\<close> is the number of rows of the query, \<open>total_pages\<close> is
  \<open>(total_count + page_size - 1) // page_size\<close>, which is the ceiling of
  \<open>total_count / page_size\<close> and is 0 for an empty query; neither depends on the page;
  and for every page beyond \<open>total_pages\<close> the result sequence is empty.
\<close>

theorem paginate_query_total_pages:
  assumes "1 \<le> page_size" and "page_size \<le> 100"
  shows "\<exists>r. paginate_query query page page_size = Inr r
      \<and> total_count r = int (length query)
      \<and> total_pages r = (total_count r + page_size - 1) div page_size
      \<and> total_pages r = \<lceil>real_of_int (total_count r) / real_of_int page_size\<rceil>
      \<and> (total_count r = 0 \<longrightarrow> total_pages r = 0)
      \<and> (total_pages r < page \<longrightarrow> results r = [])"
proof -
  let ?n = "int (length query)"
  let ?tp = "(?n + page_size - 1) div page_size"
  have ps: "page_size \<noteq> 0" using assms by simp
  have empty: "limit page_size (offset ((page - 1) * page_size) query) = []" if "?tp < page"
  proof -
    have "?tp \<le> page - 1" using that by simp
    then have "?tp * page_size \<le> (page - 1) * page_size"
      using assms by (simp add: mult_right_mono)
    with ceil_div_bounds(1)[OF assms(1), of ?n] have ge: "?n \<le> (page - 1) * page_size"
      by linarith
    then have "drop (nat ((page - 1) * page_size)) query = []" by simp
    with ge show ?thesis by (simp add: offset_def limit_def)
  qed
  have zero: "?n = 0 \<Longrightarrow> ?tp = 0" using assms by simp
  have ceil: "?tp = \<lceil>real_of_int ?n / real_of_int page_size\<rceil>"
    by (rule ceil_div_eq_ceiling[OF assms(1)])
  show ?thesis
    using ps empty zero ceil by (simp add: paginate_query_def Let_def)
qed

theorem paginate_query_total_pages_witness:
  "(1::int) \<le> 2 \<and> (2::int) \<le> 100 \<and>
   (\<exists>r. paginate_query [10, 20, 30, 40, 50 :: nat] 4 2 = Inr r
      \<and> total_count r = 5 \<and> total_pages r = 3 \<and> results r = [])"
proof -
  have a: "(1::int) \<le> 2" and b: "(2::int) \<le> 100" by simp_all
  show ?thesis
    using paginate_query_total_pages[OF a b, of "[10, 20, 30, 40, 50 :: nat]" 4] by auto
qed

section \<open>Payments need an active sponsorship\<close>

text \<open>
  C2. For a principal that resolves and is an administrator or the paying sponsor, and a
  request whose sponsor id names a sponsor-role user and whose child id names a child-role
  user: when no sponsorship row with status \<open>active\<close> links the two, \<open>create_payment\<close>
  raises the 400 error that asks to create the sponsorship first; when such a row exists
  and no payment holds the request's transaction id, it succeeds and the committed session
  is the old one with the new payment appended, the payment carrying the request's sponsor,
  child, transaction id and amount.
\<close>

theorem create_payment_needs_active_sponsorship:
  assumes principal: "find (\<lambda>u. u_id u = lu_id lu) (users d) = Some user"
      and authorized: "is_admin user \<or> u_id user = pc_sponsor_id payment_data"
      and sponsor: "list_ex (\<lambda>u. u_id u = pc_sponsor_id payment_data \<and> role u = SPONSOR) (users d)"
      and child: "list_ex (\<lambda>u. u_id u = pc_child_id payment_data \<and> role u = CHILD) (users d)"
  shows "(\<not> list_ex (\<lambda>s. s_sponsor_id s = pc_sponsor_id payment_data \<and>
                        s_child_id s = pc_child_id payment_data \<and>
                        s_status s = ''active'') (sponsorships d)
          \<longrightarrow> create_payment now d lu payment_data = Inl (HTTPException 400
            ''No active sponsorship found between the sponsor and child. Create sponsorship first.''))
       \<and> (list_ex (\<lambda>s. s_sponsor_id s = pc_sponsor_id payment_data \<and>
                        s_child_id s = pc_child_id payment_data \<and>
                        s_status s = ''active'') (sponsorships d) \<and>
          \<not> list_ex (\<lambda>p. transaction_id p = pc_transaction_id payment_data) (payments d)
          \<longrightarrow> (\<exists>new_payment.
                 create_payment now d lu payment_data =
                   Inr (d\<lparr>payments := payments d @ [new_payment]\<rparr>, new_payment) \<and>
                 p_sponsor_id new_payment = pc_sponsor_id payment_data \<and>
                 p_child_id new_payment = pc_child_id payment_data \<and>
                 transaction_id new_payment = pc_transaction_id payment_data \<and>
                 amount new_payment = pc_amount payment_data))"
proof -
  have u: "get_user_or_404 d (lu_id lu) ''User not found'' = Inr user"
    using principal by (simp add: get_user_or_404_def)
  have s: "find (\<lambda>u. u_id u = pc_sponsor_id payment_data \<and> role u = SPONSOR) (users d) \<noteq> None"
    using sponsor by (simp add: find_None_list_ex)
  have c: "find (\<lambda>u. u_id u = pc_child_id payment_data \<and> role u = CHILD) (users d) \<noteq> None"
    using child by (simp add: find_None_list_ex)
  show ?thesis
    using u authorized s c
    by (auto simp add: create_payment_def add_payment_def find_None_list_ex Let_def)
qed

theorem create_payment_needs_active_sponsorship_witness:
  "find (\<lambda>u. u_id u = lu_id alice) (users sample_db) = Some (sample_user 2 SPONSOR ''alice'') \<and>
   find (\<lambda>u. u_id u = lu_id bob) (users sample_db) = Some (sample_user 3 SPONSOR ''bob'') \<and>
   (\<exists>new_payment.
      create_payment noon sample_db alice (payment_request 2 ''TXN9'') =
        Inr (sample_db\<lparr>payments := payments sample_db @ [new_payment]\<rparr>, new_payment) \<and>
      p_sponsor_id new_payment = 2 \<and> p_child_id new_payment = 4 \<and>
      transaction_id new_payment = ''TXN9'') \<and>
   create_payment noon sample_db bob (payment_request 3 ''TXN9'') = Inl (HTTPException 400
     ''No active sponsorship found between the sponsor and child. Create sponsorship first.'')"
proof -
  have a: "find (\<lambda>u. u_id u = lu_id alice) (users sample_db) = Some (sample_user 2 SPONSOR ''alice'')"
    by (simp add: sample_defs)
  have b: "find (\<lambda>u. u_id u = lu_id bob) (users sample_db) = Some (sample_user 3 SPONSOR ''bob'')"
    by (simp add: sample_defs)
  have a_auth: "is_admin (sample_user 2 SPONSOR ''alice'') \<or>
      u_id (sample_user 2 SPONSOR ''alice'') = pc_sponsor_id (payment_request 2 ''TXN9'')"
    by (simp add: sample_defs payment_request_def)
  have b_auth: "is_admin (sample_user 3 SPONSOR ''bob'') \<or>
      u_id (sample_user 3 SPONSOR ''bob'') = pc_sponsor_id (payment_request 3 ''TXN9'')"
    by (simp add: sample_defs payment_request_def)
  have a_sp: "list_ex (\<lambda>u. u_id u = pc_sponsor_id (payment_request 2 ''TXN9'') \<and> role u = SPONSOR)
      (users sample_db)"
    by (simp add: sample_defs payment_request_def)
  have b_sp: "list_ex (\<lambda>u. u_id u = pc_sponsor_id (payment_request 3 ''TXN9'') \<and> role u = SPONSOR)
      (users sample_db)"
    by (simp add: sample_defs payment_request_def)
  have a_ch: "list_ex (\<lambda>u. u_id u = pc_child_id (payment_request 2 ''TXN9'') \<and> role u = CHILD)
      (users sample_db)"
    by (simp add: sample_defs payment_request_def)
  have b_ch: "list_ex (\<lambda>u. u_id u = pc_child_id (payment_request 3 ''TXN9'') \<and> role u = CHILD)
      (users sample_db)"
    by (simp add: sample_defs payment_request_def)
  have a_act: "list_ex (\<lambda>s. s_sponsor_id s = pc_sponsor_id (payment_request 2 ''TXN9'') \<and>
                        s_child_id s = pc_child_id (payment_request 2 ''TXN9'') \<and>
                        s_status s = ''active'') (sponsorships sample_db) \<and>
      \<not> list_ex (\<lambda>p. transaction_id p = pc_transaction_id (payment_request 2 ''TXN9''))
          (payments sample_db)"
    by (simp add: sample_defs payment_request_def)
  have b_act: "\<not> list_ex (\<lambda>s. s_sponsor_id s = pc_sponsor_id (payment_request 3 ''TXN9'') \<and>
                        s_child_id s = pc_child_id (payment_request 3 ''TXN9'') \<and>
                        s_status s = ''active'') (sponsorships sample_db)"
    by (simp add: sample_defs payment_request_def)
  have sel: "pc_sponsor_id (payment_request 2 ''TXN9'') = 2"
    "pc_child_id (payment_request 2 ''TXN9'') = 4"
    "pc_transaction_id (payment_request 2 ''TXN9'') = ''TXN9''"
    by (simp_all add: payment_request_def)
  have ok: "\<exists>new_payment.
      create_payment noon sample_db alice (payment_request 2 ''TXN9'') =
        Inr (sample_db\<lparr>payments := payments sample_db @ [new_payment]\<rparr>, new_payment) \<and>
      p_sponsor_id new_payment = 2 \<and> p_child_id new_payment = 4 \<and>
      transaction_id new_payment = ''TXN9''"
    using create_payment_needs_active_sponsorship[OF a a_auth a_sp a_ch, of noon,
        THEN conjunct2, THEN mp, OF a_act]
    unfolding sel by blast
  have refused: "create_payment noon sample_db bob (payment_request 3 ''TXN9'') =
      Inl (HTTPException 400
        ''No active sponsorship found between the sponsor and child. Create sponsorship first.'')"
    by (rule create_payment_needs_active_sponsorship[OF b b_auth b_sp b_ch, of noon,
        THEN conjunct1, THEN mp, OF b_act])
  from a b ok refused show ?thesis by blast
qed

section \<open>No second sponsorship for a pair\<close>

text \<open>
  C5. When a sponsorship row already links the sponsor and the child of the request,
  whatever the row's status, and the two ids name a sponsor-role and a child-role user,
  an administrator's \<open>create_sponsorship\<close> raises the 400 error
  \<open>Child already sponsored by this sponsor\<close>. A raising handler commits nothing: the
  result carries no new session, so no row is added.
\<close>

theorem create_sponsorship_duplicate_conflict:
  assumes principal: "find (\<lambda>u. u_id u = lu_id lu) (users d) = Some user"
      and admin: "is_admin user"
      and row: "row \<in> set (sponsorships d)"
      and links: "s_sponsor_id row = sb_sponsor_id sponsorship_data"
                 "s_child_id row = sb_child_id sponsorship_data"
      and sponsor: "list_ex (\<lambda>u. u_id u = sb_sponsor_id sponsorship_data \<and> role u = SPONSOR) (users d)"
      and child: "list_ex (\<lambda>u. u_id u = sb_child_id sponsorship_data \<and> role u = CHILD) (users d)"
  shows "create_sponsorship d lu sponsorship_data =
           Inl (HTTPException 400 ''Child already sponsored by this sponsor'')"
proof -
  have u: "get_user_or_404 d (lu_id lu) ''User not found'' = Inr user"
    using principal by (simp add: get_user_or_404_def)
  have "list_ex (\<lambda>u. u_id u = sb_child_id sponsorship_data) (users d)"
    using child by (auto simp add: list_ex_iff)
  then obtain c where c: "find (\<lambda>u. u_id u = sb_child_id sponsorship_data) (users d) = Some c"
    by (cases "find (\<lambda>u. u_id u = sb_child_id sponsorship_data) (users d)")
       (auto simp add: find_None_list_ex)
  have ch: "get_user_or_404 d (sb_child_id sponsorship_data) ''Child not found'' = Inr c"
    using c by (simp add: get_user_or_404_def)
  have sp: "find (\<lambda>u. u_id u = sb_sponsor_id sponsorship_data \<and> role u = SPONSOR) (users d) \<noteq> None"
    using sponsor by (simp add: find_None_list_ex)
  have dup: "find (\<lambda>s. s_child_id s = sb_child_id sponsorship_data \<and>
                        s_sponsor_id s = sb_sponsor_id sponsorship_data) (sponsorships d) \<noteq> None"
    using row links by (auto simp add: find_None_iff)
  show ?thesis
    using u admin ch sp dup by (simp add: create_sponsorship_def)
qed

theorem create_sponsorship_duplicate_conflict_witness:
  "find (\<lambda>u. u_id u = lu_id jane) (users sample_db) = Some (sample_user 1 ADMIN ''jane'') \<and>
   sponsorship_bob \<in> set (sponsorships sample_db) \<and>
   s_status sponsorship_bob = ''canceled'' \<and>
   create_sponsorship sample_db jane (sponsorship_request 3 4) =
     Inl (HTTPException 400 ''Child already sponsored by this sponsor'')"
proof -
  have a: "find (\<lambda>u. u_id u = lu_id jane) (users sample_db) = Some (sample_user 1 ADMIN ''jane'')"
    by (simp add: sample_defs)
  have adm: "is_admin (sample_user 1 ADMIN ''jane'')"
    by (simp add: is_admin_def sample_user_def)
  have row: "sponsorship_bob \<in> set (sponsorships sample_db)"
    by (simp add: sample_db_def)
  have st: "s_status sponsorship_bob = ''canceled''"
    by (simp add: sponsorship_bob_def)
  have l1: "s_sponsor_id sponsorship_bob = sb_sponsor_id (sponsorship_request 3 4)"
    by (simp add: sponsorship_bob_def sponsorship_request_def)
  have l2: "s_child_id sponsorship_bob = sb_child_id (sponsorship_request 3 4)"
    by (simp add: sponsorship_bob_def sponsorship_request_def)
  have sp: "list_ex (\<lambda>u. u_id u = sb_sponsor_id (sponsorship_request 3 4) \<and> role u = SPONSOR)
      (users sample_db)"
    by (simp add: sample_defs sponsorship_request_def)
  have ch: "list_ex (\<lambda>u. u_id u = sb_child_id (sponsorship_request 3 4) \<and> role u = CHILD)
      (users sample_db)"
    by (simp add: sample_defs sponsorship_request_def)
  from a row st create_sponsorship_duplicate_conflict[OF a adm row l1 l2 sp ch]
  show ?thesis by blast
qed

section \<open>Partial updates\<close>

lemma set_payment_fields_frame:
  "p_id (set_payment_fields payment_data payment) = p_id payment"
  "p_sponsor_id (set_payment_fields payment_data payment) = p_sponsor_id payment"
  "p_child_id (set_payment_fields payment_data payment) = p_child_id payment"
  "amount (set_payment_fields payment_data payment) =
     (case pu_amount payment_data of None \<Rightarrow> amount payment | Some v \<Rightarrow> v)"
  "currency (set_payment_fields payment_data payment) =
     (case pu_currency payment_data of None \<Rightarrow> currency payment | Some v \<Rightarrow> v)"
  "transaction_id (set_payment_fields payment_data payment) =
     (case pu_transaction_id payment_data of None \<Rightarrow> transaction_id payment | Some v \<Rightarrow> v)"
  "payment_method (set_payment_fields payment_data payment) =
     (case pu_payment_method payment_data of None \<Rightarrow> payment_method payment | Some v \<Rightarrow> v)"
  "p_status (set_payment_fields payment_data payment) =
     (case pu_status payment_data of None \<Rightarrow> p_status payment | Some v \<Rightarrow> v)"
  "payment_date (set_payment_fields payment_data payment) =
     (case pu_payment_date payment_data of
        None \<Rightarrow> payment_date payment | Some v \<Rightarrow> replace_tzinfo v UTC)"
  by (simp_all add: set_payment_fields_def Let_def split: option.split)

lemma set_report_fields_frame:
  "r_id (set_report_fields report_data report) = r_id report"
  "r_child_id (set_report_fields report_data report) = r_child_id report"
  "report_date (set_report_fields report_data report) =
     (case getattr_report report_data cru_report_date of
        None \<Rightarrow> report_date report | Some v \<Rightarrow> v)"
  "report_type (set_report_fields report_data report) =
     (case getattr_report report_data cru_report_type of
        None \<Rightarrow> report_type report | Some v \<Rightarrow> v)"
  "details (set_report_fields report_data report) =
     (case getattr_report report_data cru_details of None \<Rightarrow> details report | Some v \<Rightarrow> v)"
  "r_status (set_report_fields report_data report) =
     (case getattr_report report_data cru_status of None \<Rightarrow> r_status report | Some v \<Rightarrow> v)"
  by (simp_all add: set_report_fields_def Let_def split: option.split)

lemma set_sponsorship_fields_frame:
  "s_id (set_sponsorship_fields sponsorship_data sponsorship) = s_id sponsorship"
  "s_sponsor_id (set_sponsorship_fields sponsorship_data sponsorship) = s_sponsor_id sponsorship"
  "s_child_id (set_sponsorship_fields sponsorship_data sponsorship) = s_child_id sponsorship"
  "start_date (set_sponsorship_fields sponsorship_data sponsorship) =
     (case su_start_date sponsorship_data of None \<Rightarrow> start_date sponsorship | Some v \<Rightarrow> v)"
  "s_status (set_sponsorship_fields sponsorship_data sponsorship) =
     (case su_status sponsorship_data of
        None \<Rightarrow> s_status sponsorship
      | Some v \<Rightarrow> if v = [] then s_status sponsorship else v)"
  by (simp_all add: set_sponsorship_fields_def Let_def split: option.split)

lemma find_Some_id: "find (\<lambda>x. f x = i) xs = Some y \<Longrightarrow> f y = i"
  by (auto simp add: find_Some_iff)

lemma update_payment_Inr:
  assumes "update_payment d lu payment_data payment_id = Inr (d', payment')"
  shows "\<exists>payment. find (\<lambda>p. p_id p = payment_id) (payments d) = Some payment \<and>
           payment' = set_payment_fields payment_data payment \<and>
           d' = d\<lparr>payments := map (\<lambda>p. if p_id p = payment_id then payment' else p) (payments d)\<rparr>"
  using assms
  by (auto simp add: update_payment_def get_payment_or_404_def commit_payment_def Let_def
        dest: find_Some_id split: sum.splits if_splits option.splits)

lemma update_child_report_Inr:
  assumes "update_child_report d lu report_data report_id = Inr (d', report')"
  shows "\<exists>report. find (\<lambda>r. r_id r = report_id) (child_reports d) = Some report \<and>
           report' = set_report_fields report_data report \<and>
           d' = d\<lparr>child_reports :=
                    map (\<lambda>r. if r_id r = report_id then report' else r) (child_reports d)\<rparr>"
  using assms
  by (auto simp add: update_child_report_def commit_report_def Let_def
        dest: find_Some_id split: sum.splits if_splits option.splits)

lemma update_sponsorship_Inr:
  assumes "update_sponsorship d lu sponsorship_data sponsorship_id = Inr (d', sponsorship')"
  shows "\<exists>sponsorship. find (\<lambda>s. s_id s = sponsorship_id) (sponsorships d) = Some sponsorship \<and>
           sponsorship' = set_sponsorship_fields sponsorship_data sponsorship \<and>
           d' = d\<lparr>sponsorships :=
                    map (\<lambda>s. if s_id s = sponsorship_id then sponsorship' else s)
                      (sponsorships d)\<rparr>"
  using assms
  by (auto simp add: update_sponsorship_def get_sponsorship_or_404_def Let_def
        dest: find_Some_id split: sum.splits if_splits option.splits)


text \<open>
  C9. Whenever a partial update succeeds (\<open>update_payment\<close>, \<open>update_child_report\<close>,
  \<open>update_sponsorship\<close>), the stored row with the requested id exists, and the
  updated row agrees with it on every field whose value in the request is absent: such a
  field keeps its prior value, a supplied field takes the supplied value (the payment date
  with its zone set to UTC; an empty sponsorship status counts as absent). The id and the
  sponsor and child ids are those of the stored row. The committed session differs from
  the old one only in that row.
\<close>

theorem partial_update_sets_supplied_fields_only:
  "(update_payment d lu payment_data payment_id = Inr (dp, payment') \<longrightarrow>
      (\<exists>payment. find (\<lambda>p. p_id p = payment_id) (payments d) = Some payment \<and>
         p_id payment' = p_id payment \<and>
         p_sponsor_id payment' = p_sponsor_id payment \<and>
         p_child_id payment' = p_child_id payment \<and>
         amount payment' = (case pu_amount payment_data of
                              None \<Rightarrow> amount payment | Some v \<Rightarrow> v) \<and>
         currency payment' = (case pu_currency payment_data of
                                None \<Rightarrow> currency payment | Some v \<Rightarrow> v) \<and>
         transaction_id payment' = (case pu_transaction_id payment_data of
                                      None \<Rightarrow> transaction_id payment | Some v \<Rightarrow> v) \<and>
         payment_method payment' = (case pu_payment_method payment_data of
                                      None \<Rightarrow> payment_method payment | Some v \<Rightarrow> v) \<and>
         p_status payment' = (case pu_status payment_data of
                                None \<Rightarrow> p_status payment | Some v \<Rightarrow> v) \<and>
         payment_date payment' = (case pu_payment_date payment_data of
                                    None \<Rightarrow> payment_date payment
                                  | Some v \<Rightarrow> replace_tzinfo v UTC) \<and>
         dp = d\<lparr>payments :=
                  map (\<lambda>p. if p_id p = payment_id then payment' else p) (payments d)\<rparr>))
   \<and> (update_child_report d lu report_data report_id = Inr (dr, report') \<longrightarrow>
      (\<exists>report. find (\<lambda>r. r_id r = report_id) (child_reports d) = Some report \<and>
         r_id report' = r_id report \<and>
         r_child_id report' = r_child_id report \<and>
         report_date report' = (case getattr_report report_data cru_report_date of
                                  None \<Rightarrow> report_date report | Some v \<Rightarrow> v) \<and>
         report_type report' = (case getattr_report report_data cru_report_type of
                                  None \<Rightarrow> report_type report | Some v \<Rightarrow> v) \<and>
         details report' = (case getattr_report report_data cru_details of
                              None \<Rightarrow> details report | Some v \<Rightarrow> v) \<and>
         r_status report' = (case getattr_report report_data cru_status of
                               None \<Rightarrow> r_status report | Some v \<Rightarrow> v) \<and>
         dr = d\<lparr>child_reports :=
                  map (\<lambda>r. if r_id r = report_id then report' else r) (child_reports d)\<rparr>))
   \<and> (update_sponsorship d lu sponsorship_data sponsorship_id = Inr (ds, sponsorship') \<longrightarrow>
      (\<exists>sponsorship.
         find (\<lambda>s. s_id s = sponsorship_id) (sponsorships d) = Some sponsorship \<and>
         s_id sponsorship' = s_id sponsorship \<and>
         s_sponsor_id sponsorship' = s_sponsor_id sponsorship \<and>
         s_child_id sponsorship' = s_child_id sponsorship \<and>
         start_date sponsorship' = (case su_start_date sponsorship_data of
                                      None \<Rightarrow> start_date sponsorship | Some v \<Rightarrow> v) \<and>
         s_status sponsorship' = (case su_status sponsorship_data of
                                    None \<Rightarrow> s_status sponsorship
                                  | Some v \<Rightarrow> if v = [] then s_status sponsorship else v) \<and>
         ds = d\<lparr>sponsorships :=
                  map (\<lambda>s. if s_id s = sponsorship_id then sponsorship' else s)
                    (sponsorships d)\<rparr>))"
proof (intro conjI impI)
  assume "update_payment d lu payment_data payment_id = Inr (dp, payment')"
  from update_payment_Inr[OF this] obtain payment where
    "find (\<lambda>p. p_id p = payment_id) (payments d) = Some payment"
    "payment' = set_payment_fields payment_data payment"
    "dp = d\<lparr>payments := map (\<lambda>p. if p_id p = payment_id then payment' else p) (payments d)\<rparr>"
    by blast
  then show "\<exists>payment. find (\<lambda>p. p_id p = payment_id) (payments d) = Some payment \<and>
         p_id payment' = p_id payment \<and>
         p_sponsor_id payment' = p_sponsor_id payment \<and>
         p_child_id payment' = p_child_id payment \<and>
         amount payment' = (case pu_amount payment_data of
                              None \<Rightarrow> amount payment | Some v \<Rightarrow> v) \<and>
         currency payment' = (case pu_currency payment_data of
                                None \<Rightarrow> currency payment | Some v \<Rightarrow> v) \<and>
         transaction_id payment' = (case pu_transaction_id payment_data of
                                      None \<Rightarrow> transaction_id payment | Some v \<Rightarrow> v) \<and>
         payment_method payment' = (case pu_payment_method payment_data of
                                      None \<Rightarrow> payment_method payment | Some v \<Rightarrow> v) \<and>
         p_status payment' = (case pu_status payment_data of
                                None \<Rightarrow> p_status payment | Some v \<Rightarrow> v) \<and>
         payment_date payment' = (case pu_payment_date payment_data of
                                    None \<Rightarrow> payment_date payment
                                  | Some v \<Rightarrow> replace_tzinfo v UTC) \<and>
         dp = d\<lparr>payments :=
                  map (\<lambda>p. if p_id p = payment_id then payment' else p) (payments d)\<rparr>"
    by (simp add: set_payment_fields_frame)
next
  assume "update_child_report d lu report_data report_id = Inr (dr, report')"
  from update_child_report_Inr[OF this] obtain report where
    "find (\<lambda>r. r_id r = report_id) (child_reports d) = Some report"
    "report' = set_report_fields report_data report"
    "dr = d\<lparr>child_reports :=
              map (\<lambda>r. if r_id r = report_id then report' else r) (child_reports d)\<rparr>"
    by blast
  then show "\<exists>report. find (\<lambda>r. r_id r = report_id) (child_reports d) = Some report \<and>
         r_id report' = r_id report \<and>
         r_child_id report' = r_child_id report \<and>
         report_date report' = (case getattr_report report_data cru_report_date of
                                  None \<Rightarrow> report_date report | Some v \<Rightarrow> v) \<and>
         report_type report' = (case getattr_report report_data cru_report_type of
                                  None \<Rightarrow> report_type report | Some v \<Rightarrow> v) \<and>
         details report' = (case getattr_report report_data cru_details of
                              None \<Rightarrow> details report | Some v \<Rightarrow> v) \<and>
         r_status report' = (case getattr_report report_data cru_status of
                               None \<Rightarrow> r_status report | Some v \<Rightarrow> v) \<and>
         dr = d\<lparr>child_reports :=
                  map (\<lambda>r. if r_id r = report_id then report' else r) (child_reports d)\<rparr>"
    by (simp add: set_report_fields_frame)
next
  assume "update_sponsorship d lu sponsorship_data sponsorship_id = Inr (ds, sponsorship')"
  from update_sponsorship_Inr[OF this] obtain sponsorship where
    "find (\<lambda>s. s_id s = sponsorship_id) (sponsorships d) = Some sponsorship"
    "sponsorship' = set_sponsorship_fields sponsorship_data sponsorship"
    "ds = d\<lparr>sponsorships :=
              map (\<lambda>s. if s_id s = sponsorship_id then sponsorship' else s) (sponsorships d)\<rparr>"
    by blast
  then show "\<exists>sponsorship.
         find (\<lambda>s. s_id s = sponsorship_id) (sponsorships d) = Some sponsorship \<and>
         s_id sponsorship' = s_id sponsorship \<and>
         s_sponsor_id sponsorship' = s_sponsor_id sponsorship \<and>
         s_child_id sponsorship' = s_child_id sponsorship \<and>
         start_date sponsorship' = (case su_start_date sponsorship_data of
                                      None \<Rightarrow> start_date sponsorship | Some v \<Rightarrow> v) \<and>
         s_status sponsorship' = (case su_status sponsorship_data of
                                    None \<Rightarrow> s_status sponsorship
                                  | Some v \<Rightarrow> if v = [] then s_status sponsorship else v) \<and>
         ds = d\<lparr>sponsorships :=
                  map (\<lambda>s. if s_id s = sponsorship_id then sponsorship' else s)
                    (sponsorships d)\<rparr>"
    by (simp add: set_sponsorship_fields_frame)
qed


theorem partial_update_sets_supplied_fields_only_witness:
  "update_payment sample_db jane amount_patch 1 =
     Inr (sample_db\<lparr>payments := [payment_bob\<lparr>amount := 7000\<rparr>, payment_alice]\<rparr>,
          payment_bob\<lparr>amount := 7000\<rparr>) \<and>
   (\<exists>payment. find (\<lambda>p. p_id p = 1) (payments sample_db) = Some payment \<and>
      p_sponsor_id (payment_bob\<lparr>amount := 7000\<rparr>) = p_sponsor_id payment \<and>
      transaction_id (payment_bob\<lparr>amount := 7000\<rparr>) = transaction_id payment \<and>
      amount (payment_bob\<lparr>amount := 7000\<rparr>) = 7000) \<and>
   update_child_report sample_db jane (Some details_patch) 1 =
     Inr (sample_db\<lparr>child_reports := [report_carol\<lparr>details := ''Improved in Math.''\<rparr>]\<rparr>,
          report_carol\<lparr>details := ''Improved in Math.''\<rparr>) \<and>
   (\<exists>report. find (\<lambda>r. r_id r = 1) (child_reports sample_db) = Some report \<and>
      r_child_id (report_carol\<lparr>details := ''Improved in Math.''\<rparr>) = r_child_id report \<and>
      r_status (report_carol\<lparr>details := ''Improved in Math.''\<rparr>) = r_status report \<and>
      details (report_carol\<lparr>details := ''Improved in Math.''\<rparr>) = ''Improved in Math.'') \<and>
   update_sponsorship sample_db jane status_patch 2 =
     Inr (sample_db\<lparr>sponsorships :=
                      [sponsorship_alice, sponsorship_bob\<lparr>s_status := ''completed''\<rparr>]\<rparr>,
          sponsorship_bob\<lparr>s_status := ''completed''\<rparr>) \<and>
   (\<exists>sponsorship. find (\<lambda>s. s_id s = 2) (sponsorships sample_db) = Some sponsorship \<and>
      s_sponsor_id (sponsorship_bob\<lparr>s_status := ''completed''\<rparr>) = s_sponsor_id sponsorship \<and>
      start_date (sponsorship_bob\<lparr>s_status := ''completed''\<rparr>) = start_date sponsorship \<and>
      s_status (sponsorship_bob\<lparr>s_status := ''completed''\<rparr>) = ''completed'')"
proof -
  have e1: "update_payment sample_db jane amount_patch 1 =
     Inr (sample_db\<lparr>payments := [payment_bob\<lparr>amount := 7000\<rparr>, payment_alice]\<rparr>,
          payment_bob\<lparr>amount := 7000\<rparr>)"
    by (simp add: update_payment_def get_user_or_404_def is_admin_def get_payment_or_404_def
          transaction_id_in_use_def set_payment_fields_def commit_payment_def amount_patch_def Let_def
          sample_defs)
  have e2: "update_child_report sample_db jane (Some details_patch) 1 =
     Inr (sample_db\<lparr>child_reports := [report_carol\<lparr>details := ''Improved in Math.''\<rparr>]\<rparr>,
          report_carol\<lparr>details := ''Improved in Math.''\<rparr>)"
    by (simp add: update_child_report_def get_user_or_404_def is_admin_def
          set_report_fields_def getattr_report_def commit_report_def details_patch_def Let_def
          sample_defs)
  have e3: "update_sponsorship sample_db jane status_patch 2 =
     Inr (sample_db\<lparr>sponsorships :=
                      [sponsorship_alice, sponsorship_bob\<lparr>s_status := ''completed''\<rparr>]\<rparr>,
          sponsorship_bob\<lparr>s_status := ''completed''\<rparr>)"
    by (simp add: update_sponsorship_def get_user_or_404_def is_admin_def
          get_sponsorship_or_404_def set_sponsorship_fields_def status_patch_def Let_def sample_defs)
  note frame = partial_update_sets_supplied_fields_only
  have c1: "\<exists>payment. find (\<lambda>p. p_id p = 1) (payments sample_db) = Some payment \<and>
      p_sponsor_id (payment_bob\<lparr>amount := 7000\<rparr>) = p_sponsor_id payment \<and>
      transaction_id (payment_bob\<lparr>amount := 7000\<rparr>) = transaction_id payment \<and>
      amount (payment_bob\<lparr>amount := 7000\<rparr>) = 7000"
    using frame[THEN conjunct1, THEN mp, OF e1] by (auto simp add: amount_patch_def)
  have c2: "\<exists>report. find (\<lambda>r. r_id r = 1) (child_reports sample_db) = Some report \<and>
      r_child_id (report_carol\<lparr>details := ''Improved in Math.''\<rparr>) = r_child_id report \<and>
      r_status (report_carol\<lparr>details := ''Improved in Math.''\<rparr>) = r_status report \<and>
      details (report_carol\<lparr>details := ''Improved in Math.''\<rparr>) = ''Improved in Math.''"
    using frame[THEN conjunct2, THEN conjunct1, THEN mp, OF e2]
    by (auto simp add: details_patch_def getattr_report_def)
  have c3: "\<exists>sponsorship. find (\<lambda>s. s_id s = 2) (sponsorships sample_db) = Some sponsorship \<and>
      s_sponsor_id (sponsorship_bob\<lparr>s_status := ''completed''\<rparr>) = s_sponsor_id sponsorship \<and>
      start_date (sponsorship_bob\<lparr>s_status := ''completed''\<rparr>) = start_date sponsorship \<and>
      s_status (sponsorship_bob\<lparr>s_status := ''completed''\<rparr>) = ''completed''"
    using frame[THEN conjunct2, THEN conjunct2, THEN mp, OF e3]
    by (auto simp add: status_patch_def)
  from e1 c1 e2 c2 e3 c3 show ?thesis by blast
qed

section \<open>Marking a report as read\<close>

lemma find_map_replace:
  assumes "find (\<lambda>x. f x = i) xs = Some y" and "f y' = i"
  shows "find (\<lambda>x. f x = i) (map (\<lambda>x. if f x = i then y' else x) xs) = Some y'"
  using assms by (induction xs) (auto split: if_splits)

lemma map_replace_idem:
  assumes "f y' = i"
  shows "map (\<lambda>x. if f x = i then y' else x) (map (\<lambda>x. if f x = i then y' else x) xs) =
         map (\<lambda>x. if f x = i then y' else x) xs"
  using assms by (induction xs) auto

text \<open>
  C10. For a principal that resolves, an existing report whose child resolves with the
  child role, and a principal that is an administrator or the sponsor of some sponsorship
  row of that child: \<open>mark_report_as_read\<close> succeeds, the returned report is the
  stored one with only its status set to \<open>read\<close>, the committed session differs from
  the old one only in that row, and marking again on the committed session returns the
  same report and the same session.
\<close>

theorem mark_report_as_read_idempotent:
  assumes principal: "find (\<lambda>u. u_id u = lu_id lu) (users d) = Some user"
      and report: "find (\<lambda>r. r_id r = report_id) (child_reports d) = Some report"
      and child: "find (\<lambda>u. u_id u = r_child_id report \<and> role u = CHILD) (users d) = Some child"
      and authorized: "is_admin user \<or>
                       u_id user \<in> set (map s_sponsor_id (sponsorships_as_child d child))"
  shows "\<exists>d'. mark_report_as_read report_id d lu = Inr (d', report\<lparr>r_status := ''read''\<rparr>)
      \<and> d' = d\<lparr>child_reports :=
                  map (\<lambda>r. if r_id r = report_id then report\<lparr>r_status := ''read''\<rparr> else r)
                    (child_reports d)\<rparr>
      \<and> mark_report_as_read report_id d' lu = Inr (d', report\<lparr>r_status := ''read''\<rparr>)"
proof -
  let ?r = "report\<lparr>r_status := ''read''\<rparr>"
  let ?g = "\<lambda>r. if r_id r = report_id then ?r else r"
  let ?d = "d\<lparr>child_reports := map ?g (child_reports d)\<rparr>"
  have rid: "r_id report = report_id" using report by (rule find_Some_id)
  have u: "get_user_or_404 d (lu_id lu) ''User not found'' = Inr user"
    using principal by (simp add: get_user_or_404_def)
  have first: "mark_report_as_read report_id d lu = Inr (?d, ?r)"
    using u report child authorized rid
    by (auto simp add: mark_report_as_read_def commit_report_def Let_def)
  have u': "get_user_or_404 ?d (lu_id lu) ''User not found'' = Inr user"
    using principal by (simp add: get_user_or_404_def)
  have report': "find (\<lambda>r. r_id r = report_id) (child_reports ?d) = Some ?r"
    using find_map_replace[OF report, of ?r] rid by simp
  have child': "find (\<lambda>u. u_id u = r_child_id ?r \<and> role u = CHILD) (users ?d) = Some child"
    using child by simp
  have authorized': "is_admin user \<or>
      u_id user \<in> set (map s_sponsor_id (sponsorships_as_child ?d child))"
    using authorized by (simp add: sponsorships_as_child_def)
  have idem: "map ?g (map ?g (child_reports d)) = map ?g (child_reports d)"
    using map_replace_idem[of r_id ?r report_id] rid by simp
  have second: "mark_report_as_read report_id ?d lu = Inr (?d, ?r)"
    using u' report' child' authorized' rid idem
    by (auto simp add: mark_report_as_read_def commit_report_def Let_def)
  from first second show ?thesis by blast
qed

theorem mark_report_as_read_idempotent_witness:
  "find (\<lambda>u. u_id u = lu_id bob) (users sample_db) = Some (sample_user 3 SPONSOR ''bob'') \<and>
   find (\<lambda>r. r_id r = 1) (child_reports sample_db) = Some report_carol \<and>
   mark_report_as_read 1 sample_db bob =
     Inr (sample_db\<lparr>child_reports := [report_carol\<lparr>r_status := ''read''\<rparr>]\<rparr>,
          report_carol\<lparr>r_status := ''read''\<rparr>) \<and>
   mark_report_as_read 1 (sample_db\<lparr>child_reports := [report_carol\<lparr>r_status := ''read''\<rparr>]\<rparr>) bob =
     Inr (sample_db\<lparr>child_reports := [report_carol\<lparr>r_status := ''read''\<rparr>]\<rparr>,
          report_carol\<lparr>r_status := ''read''\<rparr>)"
proof -
  have a: "find (\<lambda>u. u_id u = lu_id bob) (users sample_db) = Some (sample_user 3 SPONSOR ''bob'')"
    by (simp add: sample_defs)
  have r: "find (\<lambda>r. r_id r = 1) (child_reports sample_db) = Some report_carol"
    by (simp add: sample_db_def report_carol_def)
  have c: "find (\<lambda>u. u_id u = r_child_id report_carol \<and> role u = CHILD) (users sample_db) =
      Some (sample_user 4 CHILD ''carol'')"
    by (simp add: sample_defs)
  have auth: "is_admin (sample_user 3 SPONSOR ''bob'') \<or>
      u_id (sample_user 3 SPONSOR ''bob'') \<in>
        set (map s_sponsor_id (sponsorships_as_child sample_db (sample_user 4 CHILD ''carol'')))"
    by (simp add: sponsorships_as_child_def sample_defs)
  have m: "map (\<lambda>r. if r_id r = 1 then report_carol\<lparr>r_status := ''read''\<rparr> else r)
      (child_reports sample_db) = [report_carol\<lparr>r_status := ''read''\<rparr>]"
    by (simp add: sample_db_def report_carol_def)
  from mark_report_as_read_idempotent[OF a r c auth] a r show ?thesis
    unfolding m by blast
qed

section \<open>What a sponsor can list\<close>

lemma find_Some_set: "find P xs = Some x \<Longrightarrow> x \<in> set xs \<and> P x"
  by (auto simp add: find_Some_iff)

lemma set_limit_offset: "set (limit n (offset m xs)) \<subseteq> set xs"
  by (auto simp add: limit_def offset_def dest: in_set_takeD in_set_dropD)

lemma get_payments_Inr:
  assumes "get_payments d lu sponsor_id child_id page page_size = Inr resp"
  shows "\<exists>user query query'.
           find (\<lambda>u. u_id u = lu_id lu) (users d) = Some user \<and>
           filter_by_sponsor d user sponsor_id (payments d) = Inr query \<and>
           filter_by_child d user sponsor_id child_id query = Inr query' \<and>
           resp_payments resp = limit page_size (offset ((page - 1) * page_size) query')"
  using assms
  by (auto simp add: get_payments_def get_user_or_404_def paginate_query_def Let_def
        split: sum.splits if_splits option.splits)

text \<open>
  C3, as the handler has it. For a principal that resolves to a sponsor-role user:
  a request with a non-zero \<open>sponsor_id\<close> of another sponsor-role user raises 403;
  every successful request with a non-zero \<open>sponsor_id\<close> names the principal's own id
  and returns only payments made by the principal; a request with the principal's own
  \<open>sponsor_id\<close> alone succeeds whenever the requested page of the principal's payments
  is not empty, and returns that page; a successful request with a non-zero \<open>child_id\<close>
  alone is made by a sponsor of some sponsorship row of that child, and returns the
  requested page of all payments for the child, whoever made them.
\<close>

theorem get_payments_sponsor_scope:
  assumes principal: "find (\<lambda>u. u_id u = lu_id lu) (users d) = Some user"
      and sponsor: "role user = SPONSOR"
  shows "(sid \<noteq> 0 \<and> sid \<noteq> u_id user \<and>
          list_ex (\<lambda>u. u_id u = sid \<and> role u = SPONSOR) (users d)
          \<longrightarrow> get_payments d lu (Some sid) child_id page page_size =
                Inl (HTTPException 403 ''You do not have permission to access this resource.''))
       \<and> (sid \<noteq> 0 \<and> get_payments d lu (Some sid) child_id page page_size = Inr resp
          \<longrightarrow> sid = u_id user \<and> list_all (\<lambda>p. p_sponsor_id p = u_id user) (resp_payments resp))
       \<and> (u_id user \<noteq> 0 \<and> 1 \<le> page_size \<and>
          limit page_size (offset ((page - 1) * page_size)
            (filter (\<lambda>p. p_sponsor_id p = u_id user) (payments d))) \<noteq> []
          \<longrightarrow> (\<exists>own. get_payments d lu (Some (u_id user)) None page page_size = Inr own \<and>
                 resp_payments own =
                   limit page_size (offset ((page - 1) * page_size)
                     (filter (\<lambda>p. p_sponsor_id p = u_id user) (payments d)))))
       \<and> (cid \<noteq> 0 \<and> get_payments d lu None (Some cid) page page_size = Inr resp'
          \<longrightarrow> list_ex (\<lambda>s. s_sponsor_id s = u_id user \<and> s_child_id s = cid) (sponsorships d) \<and>
              resp_payments resp' =
                limit page_size (offset ((page - 1) * page_size)
                  (filter (\<lambda>p. p_child_id p = cid) (payments d))))"
proof (intro conjI impI)
  have u: "get_user_or_404 d (lu_id lu) ''User not found'' = Inr user"
    using principal by (simp add: get_user_or_404_def)
  have na: "\<not> is_admin user" using sponsor by (simp add: is_admin_def)
  {
    assume a: "sid \<noteq> 0 \<and> sid \<noteq> u_id user \<and>
      list_ex (\<lambda>u. u_id u = sid \<and> role u = SPONSOR) (users d)"
    then have "filter_by_sponsor d user (Some sid) (payments d) =
        Inl (HTTPException 403 ''You do not have permission to access this resource.'')"
      using na by (simp add: filter_by_sponsor_def find_None_list_ex)
    then show "get_payments d lu (Some sid) child_id page page_size =
        Inl (HTTPException 403 ''You do not have permission to access this resource.'')"
      using u by (simp add: get_payments_def)
  }
  {
    assume a: "sid \<noteq> 0 \<and> get_payments d lu (Some sid) child_id page page_size = Inr resp"
    from get_payments_Inr[OF a[THEN conjunct2]] principal obtain query query' where
      q: "filter_by_sponsor d user (Some sid) (payments d) = Inr query"
      and q': "filter_by_child d user (Some sid) child_id query = Inr query'"
      and r: "resp_payments resp = limit page_size (offset ((page - 1) * page_size) query')"
      by auto
    from q a na have own: "sid = u_id user"
      and query: "query = filter (\<lambda>p. p_sponsor_id p = sid) (payments d)"
      by (auto simp add: filter_by_sponsor_def split: if_splits)
    show "sid = u_id user" by (rule own)
    from q' have "set query' \<subseteq> set query"
      by (auto simp add: filter_by_child_def Let_def split: option.splits if_splits)
    with query own r set_limit_offset[of page_size "(page - 1) * page_size" query']
    show "list_all (\<lambda>p. p_sponsor_id p = u_id user) (resp_payments resp)"
      by (auto simp add: list_all_iff)
  }
  {
    assume a: "u_id user \<noteq> 0 \<and> 1 \<le> page_size \<and>
          limit page_size (offset ((page - 1) * page_size)
            (filter (\<lambda>p. p_sponsor_id p = u_id user) (payments d))) \<noteq> []"
    have "list_ex (\<lambda>u. u_id u = u_id user \<and> role u = SPONSOR) (users d)"
      using find_Some_set[OF principal] sponsor by (auto simp add: list_ex_iff)
    then have "filter_by_sponsor d user (Some (u_id user)) (payments d) =
        Inr (filter (\<lambda>p. p_sponsor_id p = u_id user) (payments d))"
      using a by (simp add: filter_by_sponsor_def find_None_list_ex)
    then show "\<exists>own. get_payments d lu (Some (u_id user)) None page page_size = Inr own \<and>
                 resp_payments own =
                   limit page_size (offset ((page - 1) * page_size)
                     (filter (\<lambda>p. p_sponsor_id p = u_id user) (payments d)))"
      using u a by (simp add: get_payments_def filter_by_child_def paginate_query_def Let_def)
  }
  {
    assume a: "cid \<noteq> 0 \<and> get_payments d lu None (Some cid) page page_size = Inr resp'"
    from get_payments_Inr[OF a[THEN conjunct2]] principal obtain query query' where
      q: "filter_by_sponsor d user None (payments d) = Inr query"
      and q': "filter_by_child d user None (Some cid) query = Inr query'"
      and r: "resp_payments resp' = limit page_size (offset ((page - 1) * page_size) query')"
      by auto
    from q have query: "query = payments d" by (simp add: filter_by_sponsor_def)
    from q' a na obtain child where
      c: "find (\<lambda>u. u_id u = cid \<and> role u = CHILD) (users d) = Some child"
      and m: "u_id user \<in> set (map s_sponsor_id (sponsorships_as_child d child))"
      and f: "query' = filter (\<lambda>p. p_child_id p = cid) query"
      by (auto simp add: filter_by_child_def Let_def split: option.splits if_splits)
    from find_Some_set[OF c] have "u_id child = cid" by simp
    with m show "list_ex (\<lambda>s. s_sponsor_id s = u_id user \<and> s_child_id s = cid) (sponsorships d)"
      by (auto simp add: sponsorships_as_child_def list_ex_iff)
    from r f query show "resp_payments resp' =
        limit page_size (offset ((page - 1) * page_size)
          (filter (\<lambda>p. p_child_id p = cid) (payments d)))"
      by simp
  }
qed


lemmas get_payments_defs =
  get_payments_def get_user_or_404_def is_admin_def filter_by_sponsor_def filter_by_child_def
  sponsorships_as_child_def paginate_query_def limit_def offset_def Let_def

theorem get_payments_sponsor_scope_witness:
  "find (\<lambda>u. u_id u = lu_id alice) (users sample_db) = Some (sample_user 2 SPONSOR ''alice'') \<and>
   role (sample_user 2 SPONSOR ''alice'') = SPONSOR \<and>
   get_payments sample_db alice (Some 3) None 1 10 =
     Inl (HTTPException 403 ''You do not have permission to access this resource.'') \<and>
   get_payments sample_db alice (Some 2) (Some 4) 1 10 =
     Inr \<lparr>resp_page = 1, resp_page_size = 10, resp_total_payments = 1, resp_total_pages = 1,
          resp_payments = [payment_alice]\<rparr> \<and>
   list_all (\<lambda>p. p_sponsor_id p = 2) [payment_alice] \<and>
   (\<exists>own. get_payments sample_db alice (Some 2) None 1 10 = Inr own \<and>
      resp_payments own = [payment_alice]) \<and>
   get_payments sample_db alice None (Some 4) 1 10 =
     Inr \<lparr>resp_page = 1, resp_page_size = 10, resp_total_payments = 2, resp_total_pages = 1,
          resp_payments = [payment_bob, payment_alice]\<rparr> \<and>
   list_ex (\<lambda>s. s_sponsor_id s = 2 \<and> s_child_id s = 4) (sponsorships sample_db)"
proof -
  let ?u = "sample_user 2 SPONSOR ''alice''"
  have a: "find (\<lambda>u. u_id u = lu_id alice) (users sample_db) = Some ?u"
    by (simp add: sample_defs)
  have r: "role ?u = SPONSOR" by (simp add: sample_user_def)
  have uid: "u_id ?u = 2" by (simp add: sample_user_def)
  note scope = get_payments_sponsor_scope[OF a r]
  have h1: "(3::int) \<noteq> 0 \<and> 3 \<noteq> u_id ?u \<and>
      list_ex (\<lambda>u. u_id u = 3 \<and> role u = SPONSOR) (users sample_db)"
    by (simp add: sample_defs)
  have c1: "get_payments sample_db alice (Some 3) None 1 10 =
      Inl (HTTPException 403 ''You do not have permission to access this resource.'')"
    by (rule scope[THEN conjunct1, THEN mp, OF h1])
  have e2: "get_payments sample_db alice (Some 2) (Some 4) 1 10 =
     Inr \<lparr>resp_page = 1, resp_page_size = 10, resp_total_payments = 1, resp_total_pages = 1,
          resp_payments = [payment_alice]\<rparr>"
    by (simp add: get_payments_defs sample_defs)
  have h2: "(2::int) \<noteq> 0 \<and> get_payments sample_db alice (Some 2) (Some 4) 1 10 =
     Inr \<lparr>resp_page = 1, resp_page_size = 10, resp_total_payments = 1, resp_total_pages = 1,
          resp_payments = [payment_alice]\<rparr>"
    using e2 by simp
  have c2: "list_all (\<lambda>p. p_sponsor_id p = 2) [payment_alice]"
    using scope[THEN conjunct2, THEN conjunct1, THEN mp, OF h2] uid by simp
  have own: "filter (\<lambda>p. p_sponsor_id p = u_id ?u) (payments sample_db) = [payment_alice]"
    by (simp add: sample_defs)
  have h3: "u_id ?u \<noteq> 0 \<and> (1::int) \<le> 10 \<and>
      limit 10 (offset ((1 - 1) * 10)
        (filter (\<lambda>p. p_sponsor_id p = u_id ?u) (payments sample_db))) \<noteq> []"
    unfolding own by (simp add: limit_def offset_def uid)
  have c3: "\<exists>own. get_payments sample_db alice (Some 2) None 1 10 = Inr own \<and>
      resp_payments own = [payment_alice]"
    using scope[THEN conjunct2, THEN conjunct2, THEN conjunct1, THEN mp, OF h3]
    unfolding own by (simp add: limit_def offset_def uid)
  have e4: "get_payments sample_db alice None (Some 4) 1 10 =
     Inr \<lparr>resp_page = 1, resp_page_size = 10, resp_total_payments = 2, resp_total_pages = 1,
          resp_payments = [payment_bob, payment_alice]\<rparr>"
    by (simp add: get_payments_defs sample_defs)
  have h4: "(4::int) \<noteq> 0 \<and> get_payments sample_db alice None (Some 4) 1 10 =
     Inr \<lparr>resp_page = 1, resp_page_size = 10, resp_total_payments = 2, resp_total_pages = 1,
          resp_payments = [payment_bob, payment_alice]\<rparr>"
    using e4 by simp
  have c4: "list_ex (\<lambda>s. s_sponsor_id s = 2 \<and> s_child_id s = 4) (sponsorships sample_db)"
    using scope[THEN conjunct2, THEN conjunct2, THEN conjunct2, THEN mp, OF h4] uid by simp
  from a r c1 e2 c2 c3 e4 c4 show ?thesis by blast
qed

theorem get_payments_other_sponsor_counterexample:
  "find (\<lambda>u. u_id u = lu_id alice) (users sample_db) = Some (sample_user 2 SPONSOR ''alice'') \<and>
   get_payments sample_db alice None (Some 4) 1 10 =
     Inr \<lparr>resp_page = 1, resp_page_size = 10, resp_total_payments = 2, resp_total_pages = 1,
          resp_payments = [payment_bob, payment_alice]\<rparr> \<and>
   p_sponsor_id payment_bob = 3 \<and> lu_id alice = 2"
  by (simp add: get_payments_defs sample_defs)

section \<open>Updating a user\<close>

text \<open>
  C4. The claim: a principal that is not an administrator is refused by \<open>update_user\<close>
  with 403 and the target row is unchanged. The handler's docstring says the same
  (\<open>403 FORBIDDEN if the user is not an admin\<close>), but its guard tests the fetched
  principal for truth instead of calling \<open>is_admin\<close>. On the sample session the sponsor
  alice updates the child carol, whatever \<open>hash_password\<close> is: the call succeeds and the
  committed row of carol has the role of an administrator and a new password hash.
\<close>

theorem update_user_by_sponsor_succeeds:
  "find (\<lambda>u. u_id u = lu_id alice) (users sample_db) = Some (sample_user 2 SPONSOR ''alice'') \<and>
   update_user hash_password sample_db alice promote_request 4 =
     Inr (sample_db\<lparr>users :=
            [sample_user 1 ADMIN ''jane'', sample_user 2 SPONSOR ''alice'',
             sample_user 3 SPONSOR ''bob'',
             (sample_user 4 ADMIN ''carol'')\<lparr>hashed_password := hash_password ''Test1234!''\<rparr>]\<rparr>)"
  by (simp add: update_user_def get_user_or_404_def set_user_fields_def commit_user_def
        promote_request_def Let_def sample_defs)

section \<open>Updating a transaction id\<close>

text \<open>
  What holds: \<open>create_payment\<close> raises the 400 conflict for a transaction id that a
  payment already holds, and for a new transaction id that is not empty
  \<open>update_payment\<close> raises it exactly when another row holds that id, the updated row
  itself left out, and succeeds otherwise.
\<close>

lemma create_payment_duplicate_transaction_id:
  assumes principal: "find (\<lambda>u. u_id u = lu_id lu) (users d) = Some user"
      and authorized: "is_admin user \<or> u_id user = pc_sponsor_id payment_data"
      and sponsor: "list_ex (\<lambda>u. u_id u = pc_sponsor_id payment_data \<and> role u = SPONSOR) (users d)"
      and child: "list_ex (\<lambda>u. u_id u = pc_child_id payment_data \<and> role u = CHILD) (users d)"
      and active: "list_ex (\<lambda>s. s_sponsor_id s = pc_sponsor_id payment_data \<and>
                        s_child_id s = pc_child_id payment_data \<and>
                        s_status s = ''active'') (sponsorships d)"
      and held: "list_ex (\<lambda>p. transaction_id p = pc_transaction_id payment_data) (payments d)"
  shows "create_payment now d lu payment_data =
           Inl (HTTPException 400 ''Transaction ID already exists'')"
proof -
  have u: "get_user_or_404 d (lu_id lu) ''User not found'' = Inr user"
    using principal by (simp add: get_user_or_404_def)
  show ?thesis
    using u authorized sponsor child active held
    by (auto simp add: create_payment_def find_None_list_ex)
qed

lemma update_payment_nonempty_transaction_id:
  assumes principal: "find (\<lambda>u. u_id u = lu_id lu) (users d) = Some user"
      and admin: "is_admin user"
      and payment: "find (\<lambda>p. p_id p = payment_id) (payments d) = Some payment"
      and supplied: "pu_transaction_id payment_data = Some t"
      and nonempty: "t \<noteq> []"
  shows "(list_ex (\<lambda>p. transaction_id p = t \<and> p_id p \<noteq> payment_id) (payments d) \<longrightarrow>
            update_payment d lu payment_data payment_id =
              Inl (HTTPException 400 ''Transaction ID already exists''))
       \<and> (\<not> list_ex (\<lambda>p. transaction_id p = t \<and> p_id p \<noteq> payment_id) (payments d) \<longrightarrow>
            (\<exists>d'. update_payment d lu payment_data payment_id =
                     Inr (d', set_payment_fields payment_data payment)) \<and>
            transaction_id (set_payment_fields payment_data payment) = t)"
proof -
  have u: "get_user_or_404 d (lu_id lu) ''User not found'' = Inr user"
    using principal by (simp add: get_user_or_404_def)
  have p: "get_payment_or_404 d payment_id = Inr payment"
    using payment by (simp add: get_payment_or_404_def)
  have pid: "p_id payment = payment_id" using payment by (rule find_Some_id)
  have use: "transaction_id_in_use d payment_data payment_id =
      list_ex (\<lambda>p. transaction_id p = t \<and> p_id p \<noteq> payment_id) (payments d)"
    using supplied nonempty by (simp add: transaction_id_in_use_def find_None_list_ex)
  have t: "transaction_id (set_payment_fields payment_data payment) = t"
    using supplied by (simp add: set_payment_fields_frame)
  have free: "\<not> list_ex (\<lambda>p. transaction_id p = t \<and> p_id p \<noteq> payment_id) (payments d) \<Longrightarrow>
      \<not> list_ex (\<lambda>p. p_id p \<noteq> payment_id \<and> transaction_id p = t) (payments d)"
    by (auto simp add: list_ex_iff)
  show ?thesis
    using u admin p use t pid free
    by (auto simp add: update_payment_def commit_payment_def Let_def)
qed

text \<open>
  C6. The claim: updating a payment's transaction id raises the 400 conflict exactly when
  another payment row holds the new value. \<open>update_payment\<close> runs its duplicate check
  under \<^verbatim>\<open>if payment_data.transaction_id:\<close>, which is false for the empty string,
  while the copying loop tests \<open>is not None\<close> and assigns it. On the sample session
  payment 2 holds the empty transaction id; an administrator's update of payment 1 to
  the empty transaction id passes the check and is refused by the store's unique
  constraint, not by the handler's conflict error.
\<close>

theorem update_payment_empty_transaction_id_no_conflict:
  "list_ex (\<lambda>p. p_id p \<noteq> 1 \<and> transaction_id p = []) (payments sample_db) \<and>
   update_payment sample_db jane empty_transaction_id_patch 1 = Inl IntegrityError"
  by (simp add: update_payment_def get_user_or_404_def is_admin_def get_payment_or_404_def
        transaction_id_in_use_def set_payment_fields_def commit_payment_def
        empty_transaction_id_patch_def Let_def sample_defs)

section \<open>A child's detail view\<close>

text \<open>
  C7. The claim: every sponsor linked to the child by a sponsorship row may read the
  child's detail view. \<open>get_child_details\<close> compares the principal with the sponsor
  of the first sponsorship row of the child only. In a session where the child has two
  active sponsorships, the sponsor of the second row (alice, for whom
  \<open>is_sponsor_of_child\<close> holds) is refused with 403.
\<close>

theorem get_child_details_second_sponsor_denied:
  "is_sponsor_of_child second_sponsor_db 2 4 \<and>
   find (\<lambda>u. u_id u = lu_id alice) (users second_sponsor_db) =
     Some (sample_user 2 SPONSOR ''alice'') \<and>
   get_child_details second_sponsor_db alice 4 = Inl (HTTPException 403 ''Access denied'')"
  by (simp add: get_child_details_def is_sponsor_of_child_def get_user_or_404_def is_admin_def
        second_sponsor_db_def Let_def sample_defs)

section \<open>The child of a new sponsorship\<close>

text \<open>
  C8. The claim: \<open>create_sponsorship\<close> rejects a \<open>child_id\<close> that does not name
  a child-role user. The handler looks the child up by id alone. On the sample session
  an administrator's request with sponsor 2 and, as child, user 3 (bob, a sponsor)
  succeeds and commits the row.
\<close>

theorem create_sponsorship_accepts_sponsor_as_child:
  "find (\<lambda>u. u_id u = 3) (users sample_db) = Some (sample_user 3 SPONSOR ''bob'') \<and>
   create_sponsorship sample_db jane (sponsorship_request 2 3) =
     Inr (sample_db\<lparr>sponsorships := sponsorships sample_db @
            [\<lparr>s_id = 3, s_sponsor_id = 2, s_child_id = 3, start_date = Date 2024 4 1,
              s_status = ''active''\<rparr>]\<rparr>,
          \<lparr>s_id = 3, s_sponsor_id = 2, s_child_id = 3, start_date = Date 2024 4 1,
            s_status = ''active''\<rparr>)"
  by (simp add: create_sponsorship_def get_user_or_404_def is_admin_def next_id_def
        sponsorship_request_def Let_def sample_defs)

end
